theory Spec2Isabelle
  imports Complex_Main
begin

section \<open>Strings\<close>

text \<open>
  A JavaScript string is represented by the bytes of its UTF-8 encoding, so that ASCII
  text is written as a literal and two strings are equal exactly when their byte lists
  are. The texts of the program that are not ASCII are written out byte by byte, with
  their code points named beside them.
\<close>

definition starts_with :: "string \<Rightarrow> string \<Rightarrow> bool" where
  "starts_with s w = (w \<noteq> [] \<and> take (length w) s = w)"

section \<open>The platform's URL class\<close>






subsection \<open>Percent-encoding\<close>












subsection \<open>Well-formed UTF-8\<close>




subsection \<open>The application/x-www-form-urlencoded format\<close>











subsection \<open>URL objects\<close>


















section \<open>URL utilities (urlUtils.ts)\<close>




section \<open>Data model (types/index.ts)\<close>

datatype ContentType = Text | File

record SiteMetadata =
  id :: rat
  title :: string
  cover :: string
  url :: string
  tags :: "string list"
  description :: string
  content :: "string option"
  contentType :: "ContentType option"

section \<open>Tag grouping (SiteCardGrid, groupedSites)\<close>

text \<open>
  A JavaScript \<open>Map\<close> with string keys iterates in insertion order and holds each key
  once: it is an association list with distinct keys, a new key going to the end and
  \<open>set\<close> on a present key keeping its place.
\<close>

type_synonym 'v js_map = "(string \<times> 'v) list"

definition map_has :: "'v js_map \<Rightarrow> string \<Rightarrow> bool" where
  "map_has m k = (map_of m k \<noteq> None)"

definition map_get :: "'v js_map \<Rightarrow> string \<Rightarrow> 'v option" where
  "map_get m k = map_of m k"

fun map_set :: "string \<Rightarrow> 'v \<Rightarrow> 'v js_map \<Rightarrow> 'v js_map" where
  "map_set k v [] = [(k, v)]"
| "map_set k v ((k', v') # m) =
     (if k' = k then (k, v) # m else (k', v') # map_set k v m)"

text \<open>The group name used when grouping is off: U+5168 U+90E8.\<close>

definition label_all :: string where
  "label_all = [CHR 0xE5, CHR 0x85, CHR 0xA8, CHR 0xE9, CHR 0x83, CHR 0xA8]"

text \<open>
  The body of the \<open>forEach\<close> callback. \<open>groups.get(primaryTag)!.push(site)\<close> appends to
  the array the map holds for the key, which is the map with that key's array extended.
\<close>

definition group_step :: "SiteMetadata list js_map \<Rightarrow> SiteMetadata \<Rightarrow> SiteMetadata list js_map" where
  "group_step groups site =
     (case tags site of
        [] \<Rightarrow> groups
      | primaryTag # _ \<Rightarrow>
          (let groups1 = (if \<not> map_has groups primaryTag then map_set primaryTag [] groups
                          else groups)
           in case map_get groups1 primaryTag of
                Some arr \<Rightarrow> map_set primaryTag (arr @ [site]) groups1
              | None \<Rightarrow> groups1))"

definition groupedSites :: "bool \<Rightarrow> SiteMetadata list \<Rightarrow> SiteMetadata list js_map" where
  "groupedSites groupByTag sites =
     (if \<not> groupByTag then [(label_all, sites)]
      else foldl group_step [] sites)"

text \<open>The words of the specification: the primary tag of an entry, and the distinct
  elements of a list in the order of their first appearance.\<close>

definition primaryTag_of :: "SiteMetadata \<Rightarrow> string option" where
  "primaryTag_of site = (case tags site of [] \<Rightarrow> None | t # _ \<Rightarrow> Some t)"

fun first_appearance :: "'a list \<Rightarrow> 'a list" where
  "first_appearance [] = []"
| "first_appearance (x # xs) = x # first_appearance (removeAll x xs)"

definition groups_spec :: "SiteMetadata list \<Rightarrow> SiteMetadata list js_map" where
  "groups_spec sites =
     map (\<lambda>t. (t, filter (\<lambda>s. primaryTag_of s = Some t) sites))
       (first_appearance (List.map_filter primaryTag_of sites))"

section \<open>Search (useSearch.ts, searchSites)\<close>

text \<open>
  \<open>String.prototype.trim\<close> removes white space and line terminators from both ends of
  a string: U+0009 to U+000D, U+0020, U+00A0, U+1680, U+2000 to U+200A, U+2028, U+2029,
  U+202F, U+205F, U+3000 and U+FEFF, here in UTF-8.
\<close>

definition white_space :: "string list" where
  "white_space =
     [[CHR 0x09], [CHR 0x0A], [CHR 0x0B], [CHR 0x0C], [CHR 0x0D], [CHR 0x20],
      [CHR 0xC2, CHR 0xA0], [CHR 0xE1, CHR 0x9A, CHR 0x80],
      [CHR 0xE2, CHR 0x80, CHR 0x80], [CHR 0xE2, CHR 0x80, CHR 0x81],
      [CHR 0xE2, CHR 0x80, CHR 0x82], [CHR 0xE2, CHR 0x80, CHR 0x83],
      [CHR 0xE2, CHR 0x80, CHR 0x84], [CHR 0xE2, CHR 0x80, CHR 0x85],
      [CHR 0xE2, CHR 0x80, CHR 0x86], [CHR 0xE2, CHR 0x80, CHR 0x87],
      [CHR 0xE2, CHR 0x80, CHR 0x88], [CHR 0xE2, CHR 0x80, CHR 0x89],
      [CHR 0xE2, CHR 0x80, CHR 0x8A], [CHR 0xE2, CHR 0x80, CHR 0xA8],
      [CHR 0xE2, CHR 0x80, CHR 0xA9], [CHR 0xE2, CHR 0x80, CHR 0xAF],
      [CHR 0xE2, CHR 0x81, CHR 0x9F], [CHR 0xE3, CHR 0x80, CHR 0x80],
      [CHR 0xEF, CHR 0xBB, CHR 0xBF]]"

function strip_leading :: "string list \<Rightarrow> string \<Rightarrow> string" where
  "strip_leading ws s =
     (case find (starts_with s) ws of
        None \<Rightarrow> s
      | Some w \<Rightarrow> strip_leading ws (drop (length w) s))"
  by pat_completeness auto
termination
proof (relation "measure (\<lambda>(ws, s). length s)")
  show "wf (measure (\<lambda>(ws, s). length s))" by simp
next
  fix ws :: "string list" and s w :: string
  assume "find (starts_with s) ws = Some w"
  then have "starts_with s w" by (auto simp: find_Some_iff)
  then have "w \<noteq> []" and "take (length w) s = w" by (simp_all add: starts_with_def)
  then have "s \<noteq> []" by auto
  with \<open>w \<noteq> []\<close> show "((ws, drop (length w) s), (ws, s)) \<in> measure (\<lambda>(ws, s). length s)"
    by (cases w; cases s) auto
qed

declare strip_leading.simps [simp del]

definition trimStart :: "string \<Rightarrow> string" where
  "trimStart s = strip_leading white_space s"

definition trimEnd :: "string \<Rightarrow> string" where
  "trimEnd s = rev (strip_leading (map rev white_space) (rev s))"

definition trim :: "string \<Rightarrow> string" where
  "trim s = trimEnd (trimStart s)"

text \<open>
  The fuzzy search is the library Fuse.js. Its results are a parameter of the model:
  \<open>fuse_search sites q\<close> stands for the items of
  \<open>new Fuse(sites, FUSE_OPTIONS).search(q)\<close>, in the order of the results.
\<close>

definition searchSites ::
  "(SiteMetadata list \<Rightarrow> string \<Rightarrow> SiteMetadata list) \<Rightarrow>
   SiteMetadata list \<Rightarrow> string \<Rightarrow> SiteMetadata list" where
  "searchSites fuse_search sites query =
     (let trimmedQuery = trim query
      in if trimmedQuery = [] then sites
         else if sites = [] then []
         else fuse_search sites trimmedQuery)"

section \<open>Storage (storage.ts)\<close>

text \<open>
  The browser store and the module's in-memory fallback. \<open>setItem_throws\<close> and
  \<open>getItem_throws\<close> say whether the platform's \<open>localStorage\<close> raises on that
  operation (storage disabled or full).
\<close>

record storage =
  setItem_throws :: bool
  getItem_throws :: bool
  localStorage :: "string \<rightharpoonup> string"
  memoryStorage :: "string \<rightharpoonup> string"

definition THEME_PREFERENCE :: string where
  "THEME_PREFERENCE = ''theme-preference''"

definition DISCLAIMER_CONFIRMED :: string where
  "DISCLAIMER_CONFIRMED = ''disclaimer-confirmed''"

text \<open>The probe writes and removes a test key, so it leaves the store without that key.\<close>

definition isLocalStorageAvailable :: "storage \<Rightarrow> bool \<times> storage" where
  "isLocalStorageAvailable st =
     (if setItem_throws st then (False, st)
      else (True, st\<lparr>localStorage := (localStorage st)(''__storage_test__'' := None)\<rparr>))"

definition safeGetItem :: "storage \<Rightarrow> string \<Rightarrow> string option \<times> storage" where
  "safeGetItem st key =
     (case isLocalStorageAvailable st of
        (True, st') \<Rightarrow>
          (if getItem_throws st' then (memoryStorage st' key, st')
           else (localStorage st' key, st'))
      | (False, st') \<Rightarrow> (memoryStorage st' key, st'))"

definition getThemePreference :: "storage \<Rightarrow> string \<times> storage" where
  "getThemePreference st =
     (case safeGetItem st THEME_PREFERENCE of
        (Some v, st') \<Rightarrow>
          (if v = ''light'' \<or> v = ''dark'' \<or> v = ''system'' then (v, st')
           else (''system'', st'))
      | (None, st') \<Rightarrow> (''system'', st'))"

section \<open>Values read from JSON\<close>

text \<open>
  The values the validators inspect: what \<open>response.json()\<close> can produce, and
  \<open>undefined\<close>, which reading a missing property gives. A number of a JSON text is a
  finite double, hence a rational. An object is the list of its own properties, the
  first entry for a key being the property.
\<close>

datatype jsvalue =
    JUndefined
  | JNull
  | JBool bool
  | JNumber rat
  | JString string
  | JArray "jsvalue list"
  | JObject "(string \<times> jsvalue) list"

fun typeof :: "jsvalue \<Rightarrow> string" where
  "typeof JUndefined = ''undefined''"
| "typeof JNull = ''object''"
| "typeof (JBool b) = ''boolean''"
| "typeof (JNumber n) = ''number''"
| "typeof (JString s) = ''string''"
| "typeof (JArray xs) = ''object''"
| "typeof (JObject kvs) = ''object''"

text \<open>\<open>!v\<close> is \<open>\<not> truthy v\<close>.\<close>

fun truthy :: "jsvalue \<Rightarrow> bool" where
  "truthy JUndefined = False"
| "truthy JNull = False"
| "truthy (JBool b) = b"
| "truthy (JNumber n) = (n \<noteq> 0)"
| "truthy (JString s) = (s \<noteq> [])"
| "truthy (JArray xs) = True"
| "truthy (JObject kvs) = True"

fun isArray :: "jsvalue \<Rightarrow> bool" where
  "isArray (JArray xs) = True"
| "isArray v = False"

text \<open>
  Reading a property by one of the names the program uses (\<open>config\<close>, \<open>sites\<close>,
  \<open>siteTitle\<close>, \<open>adminContact\<close>, \<open>id\<close>, \<open>title\<close>, \<open>cover\<close>, \<open>url\<close>,
  \<open>description\<close>, \<open>tags\<close>, \<open>content\<close>, \<open>contentType\<close>): an array or a
  primitive has none of them. The program reads properties only of values that passed
  the object test, so the read never raises.
\<close>

fun get_prop :: "jsvalue \<Rightarrow> string \<Rightarrow> jsvalue" where
  "get_prop (JObject kvs) k = (case map_of kvs k of Some v \<Rightarrow> v | None \<Rightarrow> JUndefined)"
| "get_prop v k = JUndefined"

text \<open>A number in a template literal, for the indices and status codes the program
  prints: decimal digits.\<close>

function string_of_nat :: "nat \<Rightarrow> string" where
  "string_of_nat n =
     (if n < 10 then [''0123456789'' ! n]
      else string_of_nat (n div 10) @ [''0123456789'' ! (n mod 10)])"
  by pat_completeness auto
termination
  by (relation "measure (\<lambda>n. n)") auto

section \<open>Data loading (dataLoader.ts)\<close>

record validation_result =
  valid :: bool
  error :: "string option"

text \<open>A value of type \<open>string | undefined\<close> in a template literal.\<close>

definition template_str :: "string option \<Rightarrow> string" where
  "template_str v = (case v of Some s \<Rightarrow> s | None \<Rightarrow> ''undefined'')"

text \<open>The message texts, named by their code points where they are not ASCII.\<close>

definition msg_field :: string where
  \<comment> \<open>U+5B57 U+6BB5\<close>
  "msg_field = [CHR 0xE5, CHR 0xAD, CHR 0x97, CHR 0xE6, CHR 0xAE, CHR 0xB5]"

definition msg_must_be :: string where
  \<comment> \<open>U+5FC5 U+987B U+662F\<close>
  "msg_must_be = [CHR 0xE5, CHR 0xBF, CHR 0x85, CHR 0xE9, CHR 0xA1, CHR 0xBB,
     CHR 0xE6, CHR 0x98, CHR 0xAF]"

definition msg_string :: string where
  \<comment> \<open>U+5B57 U+7B26 U+4E32\<close>
  "msg_string = [CHR 0xE5, CHR 0xAD, CHR 0x97, CHR 0xE7, CHR 0xAC, CHR 0xA6, CHR 0xE4,
     CHR 0xB8, CHR 0xB2]"

definition msg_object :: string where
  \<comment> \<open>U+5BF9 U+8C61\<close>
  "msg_object = [CHR 0xE5, CHR 0xAF, CHR 0xB9, CHR 0xE8, CHR 0xB1, CHR 0xA1]"

definition msg_array :: string where
  \<comment> \<open>U+6570 U+7EC4\<close>
  "msg_array = [CHR 0xE6, CHR 0x95, CHR 0xB0, CHR 0xE7, CHR 0xBB, CHR 0x84]"

definition msg_number :: string where
  \<comment> \<open>U+6570 U+5B57\<close>
  "msg_number = [CHR 0xE6, CHR 0x95, CHR 0xB0, CHR 0xE5, CHR 0xAD, CHR 0x97]"

definition msg_site_data :: string where
  \<comment> \<open>U+7F51 U+7AD9 U+6570 U+636E\<close>
  "msg_site_data = [CHR 0xE7, CHR 0xBD, CHR 0x91, CHR 0xE7, CHR 0xAB, CHR 0x99, CHR 0xE6,
     CHR 0x95, CHR 0xB0, CHR 0xE6, CHR 0x8D, CHR 0xAE]"

definition msg_config_data :: string where
  \<comment> \<open>U+914D U+7F6E U+6570 U+636E\<close>
  "msg_config_data = [CHR 0xE9, CHR 0x85, CHR 0x8D, CHR 0xE7, CHR 0xBD, CHR 0xAE, CHR 0xE6,
     CHR 0x95, CHR 0xB0, CHR 0xE6, CHR 0x8D, CHR 0xAE]"

definition msg_data_file :: string where
  \<comment> \<open>U+6570 U+636E U+6587 U+4EF6\<close>
  "msg_data_file = [CHR 0xE6, CHR 0x95, CHR 0xB0, CHR 0xE6, CHR 0x8D, CHR 0xAE, CHR 0xE6,
     CHR 0x96, CHR 0x87, CHR 0xE4, CHR 0xBB, CHR 0xB6]"

definition msg_each_element :: string where
  \<comment> \<open>U+4E2D U+7684 U+6BCF U+4E2A U+5143 U+7D20\<close>
  "msg_each_element = [CHR 0xE4, CHR 0xB8, CHR 0xAD, CHR 0xE7, CHR 0x9A, CHR 0x84,
     CHR 0xE6, CHR 0xAF, CHR 0x8F, CHR 0xE4, CHR 0xB8, CHR 0xAA, CHR 0xE5, CHR 0x85, CHR 0x83,
     CHR 0xE7, CHR 0xB4, CHR 0xA0]"

definition msg_or :: string where
  \<comment> \<open>U+6216\<close>
  "msg_or = [CHR 0xE6, CHR 0x88, CHR 0x96]"

definition msg_validation_failed :: string where
  \<comment> \<open>U+9A8C U+8BC1 U+5931 U+8D25, a colon and a space\<close>
  "msg_validation_failed = [CHR 0xE9, CHR 0xAA, CHR 0x8C, CHR 0xE8, CHR 0xAF, CHR 0x81,
     CHR 0xE5, CHR 0xA4, CHR 0xB1, CHR 0xE8, CHR 0xB4, CHR 0xA5, CHR 0x3A, CHR 0x20]"

definition msg_validation_failed_short :: string where
  \<comment> \<open>U+9A8C U+8BC1 U+5931 U+8D25\<close>
  "msg_validation_failed_short = [CHR 0xE9, CHR 0xAA, CHR 0x8C, CHR 0xE8, CHR 0xAF, CHR 0x81,
     CHR 0xE5, CHR 0xA4, CHR 0xB1, CHR 0xE8, CHR 0xB4, CHR 0xA5]"

definition msg_config :: string where
  \<comment> \<open>U+914D U+7F6E\<close>
  "msg_config = [CHR 0xE9, CHR 0x85, CHR 0x8D, CHR 0xE7, CHR 0xBD, CHR 0xAE]"

definition msg_site :: string where
  \<comment> \<open>U+7F51 U+7AD9\<close>
  "msg_site = [CHR 0xE7, CHR 0xBD, CHR 0x91, CHR 0xE7, CHR 0xAB, CHR 0x99]"

definition msg_data :: string where
  \<comment> \<open>U+6570 U+636E\<close>
  "msg_data = [CHR 0xE6, CHR 0x95, CHR 0xB0, CHR 0xE6, CHR 0x8D, CHR 0xAE]"

definition msg_http_error :: string where
  \<comment> \<open>HTTP, a space, U+9519 U+8BEF, a colon and a space\<close>
  "msg_http_error = ''HTTP '' @ [CHR 0xE9, CHR 0x94, CHR 0x99, CHR 0xE8, CHR 0xAF, CHR 0xAF,
     CHR 0x3A, CHR 0x20]"

definition msg_parse_failed :: string where
  \<comment> \<open>JSON, a space, U+89E3 U+6790 U+5931 U+8D25 U+FF0C U+6570 U+636E U+683C U+5F0F
     U+4E0D U+6B63 U+786E\<close>
  "msg_parse_failed = ''JSON '' @ [CHR 0xE8, CHR 0xA7, CHR 0xA3, CHR 0xE6, CHR 0x9E, CHR 0x90,
     CHR 0xE5, CHR 0xA4, CHR 0xB1, CHR 0xE8, CHR 0xB4, CHR 0xA5, CHR 0xEF, CHR 0xBC, CHR 0x8C,
     CHR 0xE6, CHR 0x95, CHR 0xB0, CHR 0xE6, CHR 0x8D, CHR 0xAE, CHR 0xE6, CHR 0xA0, CHR 0xBC,
     CHR 0xE5, CHR 0xBC, CHR 0x8F, CHR 0xE4, CHR 0xB8, CHR 0x8D, CHR 0xE6, CHR 0xAD, CHR 0xA3,
     CHR 0xE7, CHR 0xA1, CHR 0xAE]"

definition msg_unknown_network :: string where
  \<comment> \<open>U+672A U+77E5 U+7F51 U+7EDC U+9519 U+8BEF\<close>
  "msg_unknown_network = [CHR 0xE6, CHR 0x9C, CHR 0xAA, CHR 0xE7, CHR 0x9F, CHR 0xA5,
     CHR 0xE7, CHR 0xBD, CHR 0x91, CHR 0xE7, CHR 0xBB, CHR 0x9C, CHR 0xE9, CHR 0x94, CHR 0x99,
     CHR 0xE8, CHR 0xAF, CHR 0xAF]"

definition msg_request_failed :: string where
  \<comment> \<open>U+7F51 U+7EDC U+8BF7 U+6C42 U+5931 U+8D25, a colon and a space\<close>
  "msg_request_failed = [CHR 0xE7, CHR 0xBD, CHR 0x91, CHR 0xE7, CHR 0xBB, CHR 0x9C,
     CHR 0xE8, CHR 0xAF, CHR 0xB7, CHR 0xE6, CHR 0xB1, CHR 0x82, CHR 0xE5, CHR 0xA4, CHR 0xB1,
     CHR 0xE8, CHR 0xB4, CHR 0xA5, CHR 0x3A, CHR 0x20]"

definition msg_load_failed :: string where
  \<comment> \<open>U+6570 U+636E U+52A0 U+8F7D U+5931 U+8D25 U+FF0C U+8BF7 U+68C0 U+67E5 U+7F51 U+7EDC
     U+8FDE U+63A5\<close>
  "msg_load_failed = [CHR 0xE6, CHR 0x95, CHR 0xB0, CHR 0xE6, CHR 0x8D, CHR 0xAE, CHR 0xE5,
     CHR 0x8A, CHR 0xA0, CHR 0xE8, CHR 0xBD, CHR 0xBD, CHR 0xE5, CHR 0xA4, CHR 0xB1, CHR 0xE8,
     CHR 0xB4, CHR 0xA5, CHR 0xEF, CHR 0xBC, CHR 0x8C, CHR 0xE8, CHR 0xAF, CHR 0xB7, CHR 0xE6,
     CHR 0xA3, CHR 0x80, CHR 0xE6, CHR 0x9F, CHR 0xA5, CHR 0xE7, CHR 0xBD, CHR 0x91, CHR 0xE7,
     CHR 0xBB, CHR 0x9C, CHR 0xE8, CHR 0xBF, CHR 0x9E, CHR 0xE6, CHR 0x8E, CHR 0xA5]"

definition msg_format_error :: string where
  \<comment> \<open>U+6570 U+636E U+683C U+5F0F U+9519 U+8BEF U+FF0C U+8BF7 U+8054 U+7CFB U+7BA1 U+7406
     U+5458\<close>
  "msg_format_error = [CHR 0xE6, CHR 0x95, CHR 0xB0, CHR 0xE6, CHR 0x8D, CHR 0xAE, CHR 0xE6,
     CHR 0xA0, CHR 0xBC, CHR 0xE5, CHR 0xBC, CHR 0x8F, CHR 0xE9, CHR 0x94, CHR 0x99, CHR 0xE8,
     CHR 0xAF, CHR 0xAF, CHR 0xEF, CHR 0xBC, CHR 0x8C, CHR 0xE8, CHR 0xAF, CHR 0xB7, CHR 0xE8,
     CHR 0x81, CHR 0x94, CHR 0xE7, CHR 0xB3, CHR 0xBB, CHR 0xE7, CHR 0xAE, CHR 0xA1, CHR 0xE7,
     CHR 0x90, CHR 0x86, CHR 0xE5, CHR 0x91, CHR 0x98]"

definition invalid :: "string \<Rightarrow> validation_result" where
  "invalid e = \<lparr>valid = False, error = Some e\<rparr>"

definition requiredStringFields :: "string list" where
  "requiredStringFields = [''title'', ''cover'', ''url'', ''description'']"

definition validateSiteMetadata :: "jsvalue \<Rightarrow> validation_result" where
  "validateSiteMetadata site =
     (if \<not> truthy site \<or> typeof site \<noteq> ''object'' then
        invalid (msg_site_data @ msg_must_be @ msg_object)
      else if typeof (get_prop site ''id'') \<noteq> ''number'' then
        invalid (msg_field @ '' id '' @ msg_must_be @ msg_number)
      else case find (\<lambda>field. typeof (get_prop site field) \<noteq> ''string'') requiredStringFields of
        Some field \<Rightarrow> invalid (msg_field @ '' '' @ field @ '' '' @ msg_must_be @ msg_string)
      | None \<Rightarrow>
          (case get_prop site ''tags'' of
             JArray ts \<Rightarrow>
               (if \<not> list_all (\<lambda>tag. typeof tag = ''string'') ts then
                  invalid (msg_field @ '' tags '' @ msg_each_element @ msg_must_be @ msg_string)
                else if get_prop site ''content'' \<noteq> JUndefined
                        \<and> typeof (get_prop site ''content'') \<noteq> ''string'' then
                  invalid (msg_field @ '' content '' @ msg_must_be @ msg_string)
                else if get_prop site ''contentType'' \<noteq> JUndefined
                        \<and> get_prop site ''contentType'' \<noteq> JString ''text''
                        \<and> get_prop site ''contentType'' \<noteq> JString ''file'' then
                  invalid (msg_field @ '' contentType '' @ msg_must_be @
                           [CHR 0x20, CHR 0x22] @ ''text'' @ [CHR 0x22, CHR 0x20] @ msg_or @
                           [CHR 0x20, CHR 0x22] @ ''file'' @ [CHR 0x22])
                else \<lparr>valid = True, error = None\<rparr>)
           | _ \<Rightarrow> invalid (msg_field @ '' tags '' @ msg_must_be @ msg_array)))"

definition validateSiteConfig :: "jsvalue \<Rightarrow> validation_result" where
  "validateSiteConfig config =
     (if \<not> truthy config \<or> typeof config \<noteq> ''object'' then
        invalid (msg_config_data @ msg_must_be @ msg_object)
      else if typeof (get_prop config ''siteTitle'') \<noteq> ''string'' then
        invalid (msg_field @ '' siteTitle '' @ msg_must_be @ msg_string)
      else if typeof (get_prop config ''adminContact'') \<noteq> ''string'' then
        invalid (msg_field @ '' adminContact '' @ msg_must_be @ msg_string)
      else \<lparr>valid = True, error = None\<rparr>)"

text \<open>The loop over \<open>sites\<close>, from index \<open>i\<close> on: it returns at the first entry that
  fails.\<close>

fun validate_sites_from :: "nat \<Rightarrow> jsvalue list \<Rightarrow> validation_result" where
  "validate_sites_from i [] = \<lparr>valid = True, error = None\<rparr>"
| "validate_sites_from i (site # rest) =
     (let siteResult = validateSiteMetadata site
      in if \<not> valid siteResult then
           invalid (msg_site @ '' '' @ string_of_nat i @ '' '' @ msg_validation_failed @
                    template_str (error siteResult))
         else validate_sites_from (Suc i) rest)"

definition validateSiteDataFile :: "jsvalue \<Rightarrow> validation_result" where
  "validateSiteDataFile data =
     (if \<not> truthy data \<or> typeof data \<noteq> ''object'' then
        invalid (msg_data_file @ msg_must_be @ msg_object)
      else
        (let configResult = validateSiteConfig (get_prop data ''config'')
         in if \<not> valid configResult then
              invalid (msg_config @ msg_validation_failed @ template_str (error configResult))
            else case get_prop data ''sites'' of
                   JArray sites \<Rightarrow> validate_sites_from 0 sites
                 | _ \<Rightarrow> invalid (''sites '' @ msg_must_be @ msg_array)))"

datatype error_type = NETWORK_ERROR | PARSE_ERROR | VALIDATION_ERROR

record DataLoadError =
  type :: error_type
  message :: string
  field :: "string option"

definition createDataLoadError :: "error_type \<Rightarrow> string \<Rightarrow> string option \<Rightarrow> DataLoadError" where
  "createDataLoadError t m f =
     (if t = VALIDATION_ERROR \<and> f \<noteq> None \<and> f \<noteq> Some [] then
        \<lparr>type = t, message = m, field = f\<rparr>
      else \<lparr>type = t, message = m, field = None\<rparr>)"

text \<open>
  What \<open>fetch\<close> and \<open>response.json()\<close> do is the input of the load: \<open>fetch\<close> raises
  (an \<open>Error\<close> with its message, or some other value), or gives a response with its
  \<open>ok\<close> flag, status code and status text, whose body either fails to parse or parses
  to a value.
\<close>

datatype json_outcome = JsonThrows | JsonValue jsvalue

datatype fetch_outcome =
    FetchThrows "string option"
  | Response bool nat string json_outcome

datatype load_result = Success jsvalue | Failure DataLoadError

fun loadSiteData :: "fetch_outcome \<Rightarrow> load_result" where
  "loadSiteData (FetchThrows err) =
     Failure (createDataLoadError NETWORK_ERROR
       (msg_request_failed @ (case err of Some m \<Rightarrow> m | None \<Rightarrow> msg_unknown_network)) None)"
| "loadSiteData (Response ok status statusText body) =
     (if \<not> ok then
        Failure (createDataLoadError NETWORK_ERROR
          (msg_http_error @ string_of_nat status @ '' '' @ statusText) None)
      else case body of
        JsonThrows \<Rightarrow> Failure (createDataLoadError PARSE_ERROR msg_parse_failed None)
      | JsonValue data \<Rightarrow>
          (let validationResult = validateSiteDataFile data
           in if \<not> valid validationResult then
                Failure (createDataLoadError VALIDATION_ERROR
                  (case error validationResult of
                     Some e \<Rightarrow> if e \<noteq> [] then e else msg_data @ msg_validation_failed_short
                   | None \<Rightarrow> msg_data @ msg_validation_failed_short)
                  (Some ''data''))
              else Success data))"

definition getErrorMessage :: "DataLoadError \<Rightarrow> string" where
  "getErrorMessage e =
     (case type e of
        NETWORK_ERROR \<Rightarrow> msg_load_failed
      | PARSE_ERROR \<Rightarrow> msg_format_error
      | VALIDATION_ERROR \<Rightarrow> msg_data @ msg_validation_failed @ template_str (field e))"

section \<open>Application state (App.vue, loadData)\<close>

record app_state =
  siteConfig :: jsvalue
  sites :: jsvalue
  isLoading :: bool
  errorMessage :: "string option"
  activeTag :: string
  showDetailPage :: bool
  selectedSite :: jsvalue

text \<open>\<open>loadData\<close> up to the point where it waits for the load, and from the point where
  the load has answered.\<close>

definition loadData_begin :: "app_state \<Rightarrow> app_state" where
  "loadData_begin s = s\<lparr>isLoading := True, errorMessage := None\<rparr>"

definition loadData_resume :: "load_result \<Rightarrow> app_state \<Rightarrow> app_state" where
  "loadData_resume result s =
     (case result of
        Success data \<Rightarrow>
          s\<lparr>siteConfig := get_prop data ''config'', sites := get_prop data ''sites''\<rparr>
      | Failure e \<Rightarrow> s\<lparr>errorMessage := Some (getErrorMessage e)\<rparr>)
     \<lparr>isLoading := False\<rparr>"

definition loadData :: "fetch_outcome \<Rightarrow> app_state \<Rightarrow> app_state" where
  "loadData outcome s = loadData_resume (loadSiteData outcome) (loadData_begin s)"

text \<open>The state the application starts in; the title is U+7F51 U+7AD9 U+6536 U+85CF.\<close>

definition initial_state :: app_state where
  "initial_state =
     \<lparr>siteConfig = JObject [(''siteTitle'', JString [CHR 0xE7, CHR 0xBD, CHR 0x91, CHR 0xE7,
                     CHR 0xAB, CHR 0x99, CHR 0xE6, CHR 0x94, CHR 0xB6, CHR 0xE8, CHR 0x97, CHR 0x8F]),
                   (''adminContact'', JString [])],
      sites = JArray [], isLoading = True, errorMessage = None, activeTag = [],
      showDetailPage = False, selectedSite = JNull\<rparr>"

text \<open>The words of the specification: the load fails with a validation error that
  reports the field \<open>f\<close>.\<close>

definition reports_field :: "load_result \<Rightarrow> string \<Rightarrow> bool" where
  "reports_field r f =
     (case r of
        Failure e \<Rightarrow> type e = VALIDATION_ERROR \<and> field e = Some f
      | Success d \<Rightarrow> False)"

section \<open>The platform's URL class: parsing what was serialized\<close>





































































section \<open>URL utilities: what sanitizing does\<close>










section \<open>Tag grouping: the group list computed by the loop\<close>

lemma first_appearance_snoc:
  "first_appearance (xs @ [x]) =
     (if x \<in> set xs then first_appearance xs else first_appearance xs @ [x])"
  by (induction xs rule: first_appearance.induct) auto

lemma set_first_appearance: "set (first_appearance xs) = set xs"
  by (induction xs rule: first_appearance.induct) auto

lemma distinct_first_appearance: "distinct (first_appearance xs)"
  by (induction xs rule: first_appearance.induct) (auto simp: set_first_appearance)

lemma map_of_tabulate:
  "map_of (map (\<lambda>t. (t, f t)) ks) k = (if k \<in> set ks then Some (f k) else None)"
  by (induction ks) auto

lemma map_set_tabulate_new:
  "k \<notin> set ks \<Longrightarrow>
   map_set k v (map (\<lambda>t. (t, f t)) ks) = map (\<lambda>t. (t, f t)) ks @ [(k, v)]"
  by (induction ks) auto

lemma map_set_tabulate_old:
  "k \<in> set ks \<Longrightarrow> distinct ks \<Longrightarrow>
   map_set k v (map (\<lambda>t. (t, f t)) ks) = map (\<lambda>t. (t, if t = k then v else f t)) ks"
  by (induction ks) auto

lemma map_set_twice_new:
  "k \<notin> set ks \<Longrightarrow>
   map_set k w (map_set k v (map (\<lambda>t. (t, f t)) ks)) = map (\<lambda>t. (t, f t)) ks @ [(k, w)]"
  by (induction ks) auto

lemma map_of_map_set_same: "map_of (map_set k v m) k = Some v"
  by (induction m) auto

lemma map_filter_snoc:
  "List.map_filter g (xs @ [x]) =
     List.map_filter g xs @ (case g x of None \<Rightarrow> [] | Some y \<Rightarrow> [y])"
  by (simp add: List.map_filter_def split: option.splits)

lemma set_map_filter: "set (List.map_filter g xs) = {y. \<exists>x \<in> set xs. g x = Some y}"
  by (induction xs) (auto split: option.splits)

text \<open>One round of the loop takes the groups of a prefix of the input to the groups of
  the prefix extended by the entry.\<close>

lemma group_step_spec: "group_step (groups_spec xs) y = groups_spec (xs @ [y])"
proof (cases "tags y")
  case Nil
  then have "primaryTag_of y = None" by (simp add: primaryTag_of_def)
  then show ?thesis using Nil
    by (simp add: group_step_def groups_spec_def map_filter_snoc)
next
  case (Cons t ts)
  then have pt: "primaryTag_of y = Some t" by (simp add: primaryTag_of_def)
  let ?ks = "first_appearance (List.map_filter primaryTag_of xs)"
  let ?f = "\<lambda>t. filter (\<lambda>s. primaryTag_of s = Some t) xs"
  note ds = distinct_first_appearance [of "List.map_filter primaryTag_of xs"]
  show ?thesis
  proof (cases "t \<in> set ?ks")
    case True
    then have old: "t \<in> set (List.map_filter primaryTag_of xs)"
      by (simp add: set_first_appearance)
    have "map_set t (?f t @ [y]) (map (\<lambda>t. (t, ?f t)) ?ks) =
          map (\<lambda>k. (k, if k = t then ?f t @ [y] else ?f k)) ?ks"
      using True ds by (rule map_set_tabulate_old)
    moreover have "(\<lambda>k. (k, if k = t then ?f t @ [y] else ?f k)) =
          (\<lambda>k. (k, filter (\<lambda>s. primaryTag_of s = Some k) (xs @ [y])))"
      using pt by auto
    ultimately show ?thesis using Cons pt True old
      by (simp add: group_step_def groups_spec_def map_filter_snoc first_appearance_snoc
          map_has_def map_get_def map_of_tabulate)
  next
    case False
    then have new: "t \<notin> set (List.map_filter primaryTag_of xs)"
      by (simp add: set_first_appearance)
    then have empty: "?f t = []"
      by (auto simp: set_map_filter filter_empty_conv)
    have "map_set t [y] (map_set t [] (map (\<lambda>t. (t, ?f t)) ?ks)) =
          map (\<lambda>t. (t, ?f t)) ?ks @ [(t, [y])]"
      using False by (rule map_set_twice_new)
    moreover have "map (\<lambda>k. (k, filter (\<lambda>s. primaryTag_of s = Some k) (xs @ [y]))) ?ks =
          map (\<lambda>t. (t, ?f t)) ?ks"
      using False pt by (intro map_cong) auto
    moreover have "map_of (map_set t [] (map (\<lambda>t. (t, ?f t)) ?ks)) t = Some []"
      by (rule map_of_map_set_same)
    ultimately show ?thesis using Cons pt False new empty
      by (simp add: group_step_def groups_spec_def map_filter_snoc first_appearance_snoc
          map_has_def map_get_def map_of_tabulate)
  qed
qed

lemma foldl_group_step_spec: "foldl group_step (groups_spec xs) ys = groups_spec (xs @ ys)"
proof (induction ys arbitrary: xs)
  case Nil
  show ?case by simp
next
  case (Cons y ys)
  show ?case using Cons.IH [of "xs @ [y]"] by (simp add: group_step_spec)
qed

text \<open>
  C3. Grouping by tag walks the entries in input order and puts each entry with a
  non-empty tag list at the end of the group of its first tag, a group being created
  when its tag is first met. So the result is, for each distinct primary tag in the
  order of first appearance, the entries with that primary tag in input order; an entry
  with no tag has no primary tag and is in no group; no tag has two groups.
\<close>

theorem groupedSites_byTag:
  fixes sites :: "SiteMetadata list"
  shows "groupedSites True sites =
     map (\<lambda>t. (t, filter (\<lambda>s. primaryTag_of s = Some t) sites))
       (first_appearance (List.map_filter primaryTag_of sites))
   \<and> distinct (map fst (groupedSites True sites))"
proof -
  have e: "groups_spec [] = []" by (simp add: groups_spec_def List.map_filter_def)
  have g: "groupedSites True sites = groups_spec sites"
    using foldl_group_step_spec [of "[]" sites] by (simp add: groupedSites_def e)
  have "distinct (map fst (groups_spec sites))"
    by (simp add: groups_spec_def comp_def distinct_first_appearance)
  with g show ?thesis by (simp add: groups_spec_def)
qed

text \<open>
  C9. With grouping off the result is one group, named by the two characters U+5168
  U+90E8, that holds every entry in input order.
\<close>

theorem groupedSites_ungrouped:
  fixes sites :: "SiteMetadata list"
  shows "groupedSites False sites =
     [([CHR 0xE5, CHR 0x85, CHR 0xA8, CHR 0xE9, CHR 0x83, CHR 0xA8], sites)]"
  by (simp add: groupedSites_def label_all_def)

section \<open>Search: the pass-through cases\<close>

lemma strip_leading_white:
  assumes "w \<in> set white_space"
  shows "strip_leading white_space (w @ rest) = strip_leading white_space rest"
proof -
  have "find (starts_with (w @ rest)) white_space = Some w"
    using assms
    by (simp only: white_space_def set_simps insert_iff empty_iff)
       (elim disjE; simp add: starts_with_def)
  moreover have "drop (length w) (w @ rest) = rest" by simp
  ultimately show ?thesis by (subst strip_leading.simps) (simp only: option.case)
qed

lemma strip_leading_empty: "strip_leading ps [] = []"
proof -
  have "find (starts_with []) ps = None"
    by (induction ps) (auto simp: starts_with_def)
  then show ?thesis by (subst strip_leading.simps) (simp only: option.case)
qed

lemma trimStart_white:
  "list_all (\<lambda>w. w \<in> set white_space) ws \<Longrightarrow> trimStart (concat ws) = []"
proof (induction ws)
  case Nil
  show ?case by (simp add: trimStart_def strip_leading_empty)
next
  case (Cons w ws)
  then show ?case using strip_leading_white [of w "concat ws"] by (simp add: trimStart_def)
qed

text \<open>A string made of white space only is empty once trimmed.\<close>

lemma trim_white:
  "list_all (\<lambda>w. w \<in> set white_space) ws \<Longrightarrow> trim (concat ws) = []"
  using trimStart_white [of ws] by (simp add: trim_def trimEnd_def strip_leading_empty)

text \<open>
  C4. A query that is empty after trimming, as every query made of white space only is,
  returns the given entries themselves, in their order; and on no entries every query
  returns no entries. Both hold whatever the fuzzy search library answers.
\<close>

theorem searchSites_passthrough:
  fixes sites :: "SiteMetadata list"
  shows "(trim query = [] \<longrightarrow> searchSites fuse_search sites query = sites)
   \<and> (list_all (\<lambda>w. w \<in> set white_space) ws \<longrightarrow>
        searchSites fuse_search sites (concat ws) = sites)
   \<and> searchSites fuse_search [] query' = []"
  using trim_white [of ws] by (simp add: searchSites_def Let_def)

theorem searchSites_passthrough_witness:
  "trim [] = []
   \<and> list_all (\<lambda>w. w \<in> set white_space) [[CHR 0x20], [CHR 0x09], [CHR 0xE3, CHR 0x80, CHR 0x80]]
   \<and> searchSites (\<lambda>xs q. rev xs)
        [\<lparr>id = 1, title = ''b'', cover = [], url = ''https://b.org'', tags = [''t''],
          description = [], content = None, contentType = None\<rparr>,
         \<lparr>id = 2, title = ''a'', cover = [], url = ''https://a.org'', tags = [],
          description = [], content = None, contentType = None\<rparr>]
        [] =
        [\<lparr>id = 1, title = ''b'', cover = [], url = ''https://b.org'', tags = [''t''],
          description = [], content = None, contentType = None\<rparr>,
         \<lparr>id = 2, title = ''a'', cover = [], url = ''https://a.org'', tags = [],
          description = [], content = None, contentType = None\<rparr>]
   \<and> searchSites (\<lambda>xs q. rev xs)
        [\<lparr>id = 1, title = ''b'', cover = [], url = ''https://b.org'', tags = [''t''],
          description = [], content = None, contentType = None\<rparr>,
         \<lparr>id = 2, title = ''a'', cover = [], url = ''https://a.org'', tags = [],
          description = [], content = None, contentType = None\<rparr>]
        [CHR 0x20, CHR 0x09, CHR 0xE3, CHR 0x80, CHR 0x80] =
        [\<lparr>id = 1, title = ''b'', cover = [], url = ''https://b.org'', tags = [''t''],
          description = [], content = None, contentType = None\<rparr>,
         \<lparr>id = 2, title = ''a'', cover = [], url = ''https://a.org'', tags = [],
          description = [], content = None, contentType = None\<rparr>]
   \<and> searchSites (\<lambda>xs q. rev xs) [] ''abc'' = []"
proof -
  have t: "trim [] = []"
    by (simp add: trim_def trimStart_def trimEnd_def strip_leading_empty)
  have w: "list_all (\<lambda>w. w \<in> set white_space)
             [[CHR 0x20], [CHR 0x09], [CHR 0xE3, CHR 0x80, CHR 0x80]]"
    by (simp add: white_space_def)
  show ?thesis
    using t w searchSites_passthrough
      [of "[]" "\<lambda>xs q. rev xs" _ "[[CHR 0x20], [CHR 0x09], [CHR 0xE3, CHR 0x80, CHR 0x80]]"
          "''abc''"]
    by simp
qed

section \<open>Storage: the theme preference read back\<close>

text \<open>
  C10. When the value read for the theme key is absent or is not exactly one of the
  strings light, dark and system, the preference returned is system; so the preference
  returned is always one of the three.
\<close>

theorem getThemePreference_default:
  "(fst (safeGetItem st THEME_PREFERENCE) \<notin> {Some ''light'', Some ''dark'', Some ''system''}
      \<longrightarrow> fst (getThemePreference st) = ''system'')
   \<and> fst (getThemePreference st') \<in> {''light'', ''dark'', ''system''}"
  by (auto simp: getThemePreference_def split: prod.splits option.splits)

theorem getThemePreference_default_witness:
  "fst (safeGetItem
          \<lparr>setItem_throws = False, getItem_throws = False,
           localStorage = [''theme-preference'' \<mapsto> ''Dark''], memoryStorage = Map.empty\<rparr>
          THEME_PREFERENCE) \<notin> {Some ''light'', Some ''dark'', Some ''system''}
   \<and> fst (getThemePreference
          \<lparr>setItem_throws = False, getItem_throws = False,
           localStorage = [''theme-preference'' \<mapsto> ''Dark''], memoryStorage = Map.empty\<rparr>)
       = ''system''
   \<and> fst (getThemePreference
          \<lparr>setItem_throws = True, getItem_throws = False,
           localStorage = Map.empty, memoryStorage = [''theme-preference'' \<mapsto> ''dark'']\<rparr>)
       \<in> {''light'', ''dark'', ''system''}"
proof -
  have h: "fst (safeGetItem
          \<lparr>setItem_throws = False, getItem_throws = False,
           localStorage = [''theme-preference'' \<mapsto> ''Dark''], memoryStorage = Map.empty\<rparr>
          THEME_PREFERENCE) \<notin> {Some ''light'', Some ''dark'', Some ''system''}"
    by (simp add: safeGetItem_def isLocalStorageAvailable_def THEME_PREFERENCE_def)
  show ?thesis
    using h getThemePreference_default
      [of "\<lparr>setItem_throws = False, getItem_throws = False,
           localStorage = [''theme-preference'' \<mapsto> ''Dark''], memoryStorage = Map.empty\<rparr>"
          "\<lparr>setItem_throws = True, getItem_throws = False,
           localStorage = Map.empty, memoryStorage = [''theme-preference'' \<mapsto> ''dark'']\<rparr>"]
    by blast
qed

section \<open>Data loading: a configuration without a title\<close>

lemma validateSiteConfig_no_siteTitle:
  assumes "truthy config" and "typeof config = ''object''"
    and "typeof (get_prop config ''siteTitle'') \<noteq> ''string''"
  shows "validateSiteConfig config = invalid (msg_field @ '' siteTitle '' @ msg_must_be @ msg_string)"
  using assms by (simp add: validateSiteConfig_def)

text \<open>
  C2, as the code has it. When the loaded value is an object whose \<open>config\<close> is an
  object without a string \<open>siteTitle\<close>, the load fails with a validation error. Its
  message is the one reason "configuration validation failed: field siteTitle must be a
  string", whatever else is wrong with the value; its field is the fixed name
  \<open>data\<close>, and the message shown to the user is built from that field.
\<close>

theorem loadSiteData_no_siteTitle:
  assumes "truthy data" and "typeof data = ''object''"
    and "truthy (get_prop data ''config'')" and "typeof (get_prop data ''config'') = ''object''"
    and "typeof (get_prop (get_prop data ''config'') ''siteTitle'') \<noteq> ''string''"
  shows "loadSiteData (Response True status statusText (JsonValue data)) =
           Failure \<lparr>type = VALIDATION_ERROR,
                    message = msg_config @ msg_validation_failed @
                              msg_field @ '' siteTitle '' @ msg_must_be @ msg_string,
                    field = Some ''data''\<rparr>
         \<and> getErrorMessage \<lparr>type = VALIDATION_ERROR,
                    message = msg_config @ msg_validation_failed @
                              msg_field @ '' siteTitle '' @ msg_must_be @ msg_string,
                    field = Some ''data''\<rparr> = msg_data @ msg_validation_failed @ ''data''"
proof -
  have c: "validateSiteConfig (get_prop data ''config'') =
             invalid (msg_field @ '' siteTitle '' @ msg_must_be @ msg_string)"
    using assms(3-5) by (rule validateSiteConfig_no_siteTitle)
  have v: "validateSiteDataFile data =
             invalid (msg_config @ msg_validation_failed @
                      msg_field @ '' siteTitle '' @ msg_must_be @ msg_string)"
    using assms(1,2) by (simp add: validateSiteDataFile_def c invalid_def template_str_def)
  have ne: "msg_config @ msg_validation_failed @
              msg_field @ '' siteTitle '' @ msg_must_be @ msg_string \<noteq> []"
    by (simp add: msg_config_def)
  show ?thesis
    using ne by (simp add: v invalid_def createDataLoadError_def getErrorMessage_def
        template_str_def)
qed

theorem loadSiteData_no_siteTitle_witness:
  "loadSiteData (Response True 200 ''OK''
      (JsonValue (JObject [(''config'', JObject [(''adminContact'', JNumber 7)]),
                           (''sites'', JString ''none'')]))) =
     Failure \<lparr>type = VALIDATION_ERROR,
              message = msg_config @ msg_validation_failed @
                        msg_field @ '' siteTitle '' @ msg_must_be @ msg_string,
              field = Some ''data''\<rparr>"
  using loadSiteData_no_siteTitle
    [of "JObject [(''config'', JObject [(''adminContact'', JNumber 7)]),
                  (''sites'', JString ''none'')]" 200 "''OK''"]
  by simp

text \<open>The claim as the specification words it fails on a value that only misses the
  title: the field reported is \<open>data\<close>, not the path of the missing field.\<close>

theorem reports_siteTitle_counterexample:
  "reports_field
     (loadSiteData (Response True 200 ''OK''
        (JsonValue (JObject [(''config'', JObject [(''adminContact'', JString ''a@b.com'')]),
                             (''sites'', JArray [])]))))
     ''data''
   \<and> \<not> reports_field
     (loadSiteData (Response True 200 ''OK''
        (JsonValue (JObject [(''config'', JObject [(''adminContact'', JString ''a@b.com'')]),
                             (''sites'', JArray [])]))))
     ''siteTitle''
   \<and> \<not> reports_field
     (loadSiteData (Response True 200 ''OK''
        (JsonValue (JObject [(''config'', JObject [(''adminContact'', JString ''a@b.com'')]),
                             (''sites'', JArray [])]))))
     ''config.siteTitle''"
  by (simp add: reports_field_def validateSiteDataFile_def validateSiteConfig_def invalid_def
      createDataLoadError_def template_str_def)

section \<open>Application state: a load that fails\<close>

text \<open>
  C7. When the load fails, with whichever of the three kinds of error, the state after
  \<open>loadData\<close> is the state before it with the error message set and the loading flag
  cleared: the site list and the configuration are the ones held before, also while
  the load is awaited.
\<close>

theorem loadData_failure_frame:
  assumes "loadSiteData outcome = Failure e"
  shows "loadData outcome s = s\<lparr>isLoading := False, errorMessage := Some (getErrorMessage e)\<rparr>
         \<and> sites (loadData outcome s) = sites s
         \<and> siteConfig (loadData outcome s) = siteConfig s
         \<and> sites (loadData_begin s) = sites s
         \<and> siteConfig (loadData_begin s) = siteConfig s"
  using assms by (simp add: loadData_def loadData_resume_def loadData_begin_def)

theorem loadData_failure_frame_witness:
  "loadSiteData (Response True 200 ''OK'' JsonThrows) =
     Failure \<lparr>type = PARSE_ERROR, message = msg_parse_failed, field = None\<rparr>
   \<and> loadData (Response True 200 ''OK'' JsonThrows) initial_state =
       initial_state\<lparr>isLoading := False, errorMessage := Some msg_format_error\<rparr>
   \<and> sites (loadData (Response True 200 ''OK'' JsonThrows) initial_state) = JArray []"
proof -
  have h: "loadSiteData (Response True 200 ''OK'' JsonThrows) =
     Failure \<lparr>type = PARSE_ERROR, message = msg_parse_failed, field = None\<rparr>"
    by (simp add: createDataLoadError_def)
  have m: "getErrorMessage \<lparr>type = PARSE_ERROR, message = msg_parse_failed, field = None\<rparr>
             = msg_format_error"
    by (simp add: getErrorMessage_def)
  have i: "sites initial_state = JArray []"
    by (simp add: initial_state_def)
  show ?thesis
    using h m i loadData_failure_frame [OF h, of initial_state] by simp
qed

end
